theory Spec2Isabelle
  imports Main
begin

section \<open>Python values, errors and strings\<close>

text \<open>
  The module \<^verbatim>\<open>custom_ctk_dialog.py\<close> raises \<^verbatim>\<open>ValueError\<close> with a message for each
  of its own failures; the other constructors are the built-in exceptions that its
  expressions can raise (\<^verbatim>\<open>len(None)\<close>, \<^verbatim>\<open>x % 0\<close>, an index out of range), the toolkit's
  \<^verbatim>\<open>TclError\<close>, an operating-system error of a process spawn, the error of decoding
  the output of a process as text, and the two exceptions of \<^verbatim>\<open>json.loads\<close>: the one for
  a text that is not JSON and the one of its recursion guard.
\<close>

datatype error =
    ValueError string
  | TypeError
  | ZeroDivisionError
  | IndexError
  | TclError
  | OSError
  | UnicodeDecodeError
  | JSONDecodeError
  | RecursionError

text \<open>
  The values that the dialogs store in their result slot and return. \<open>CANCEL_SIGNAL\<close>
  is the object made by \<^verbatim>\<open>CANCEL_SIGNAL = object()\<close>: it is compared by identity, and
  as a constructor of its own it differs from every other value.
\<close>

datatype py_value =
    PyNone
  | CANCEL_SIGNAL
  | PyStr string
  | PyBool bool
  | PyList "string list"

text \<open>Truth value of an object, as \<^verbatim>\<open>not x\<close> and \<^verbatim>\<open>bool(x)\<close> compute it.\<close>

fun truthy :: "py_value \<Rightarrow> bool" where
  "truthy PyNone = False"
| "truthy CANCEL_SIGNAL = True"
| "truthy (PyStr s) = (s \<noteq> [])"
| "truthy (PyBool b) = b"
| "truthy (PyList xs) = (xs \<noteq> [])"

text \<open>
  A message argument is a \<^verbatim>\<open>str\<close> or \<^verbatim>\<open>None\<close>: \<^verbatim>\<open>not message\<close> holds for \<^verbatim>\<open>None\<close>
  and for the empty string.
\<close>

fun str_truthy :: "string option \<Rightarrow> bool" where
  "str_truthy None = False"
| "str_truthy (Some s) = (s \<noteq> [])"

text \<open>
  \<^verbatim>\<open>xs[:k]\<close>: a negative bound counts from the end, and a bound beyond either end is
  clipped. An element of a string stands for one character of the Python string.
\<close>

definition py_slice_to :: "'a list \<Rightarrow> int \<Rightarrow> 'a list" where
  "py_slice_to xs k = take (nat (if k < 0 then int (length xs) + k else k)) xs"

text \<open>
  \<^verbatim>\<open>xs[i]\<close>: a negative index counts from the end; out of range raises
  \<^verbatim>\<open>IndexError\<close>.
\<close>

definition py_getitem :: "'a list \<Rightarrow> int \<Rightarrow> error + 'a" where
  "py_getitem xs i =
     (if 0 \<le> i \<and> i < int (length xs) then Inr (xs ! nat i)
      else if i < 0 \<and> - int (length xs) \<le> i then Inr (xs ! nat (int (length xs) + i))
      else Inl IndexError)"

text \<open>\<^verbatim>\<open>a % b\<close> on integers: the sign follows the divisor; \<^verbatim>\<open>b = 0\<close> raises.\<close>

definition py_mod :: "int \<Rightarrow> int \<Rightarrow> error + int" where
  "py_mod a b = (if b = 0 then Inl ZeroDivisionError else Inr (a mod b))"

text \<open>
  \<^verbatim>\<open>str.strip()\<close> removes the white space at both ends. The characters below are the
  ones \<^verbatim>\<open>str.isspace\<close> accepts among the first 256 code points.
\<close>

definition py_isspace :: "char \<Rightarrow> bool" where
  "py_isspace c =
     (c \<in> set [CHR 0x09, CHR 0x0A, CHR 0x0B, CHR 0x0C, CHR 0x0D, CHR 0x1C, CHR 0x1D,
               CHR 0x1E, CHR 0x1F, CHR 0x20, CHR 0x85, CHR 0xA0])"

definition py_strip :: "string \<Rightarrow> string" where
  "py_strip s = rev (dropWhile py_isspace (rev (dropWhile py_isspace s)))"

section \<open>Message truncation\<close>

definition MESSAGE_MAX_LENGTH :: int where
  "MESSAGE_MAX_LENGTH = 500"

text \<open>
  \<^verbatim>\<open>Dialog._truncate_message(message, max_chars)\<close>. \<^verbatim>\<open>len(message)\<close> raises
  \<^verbatim>\<open>TypeError\<close> when the message is \<^verbatim>\<open>None\<close>; on a string nothing in the body can
  raise.
\<close>

definition truncate_message :: "string option \<Rightarrow> int \<Rightarrow> error + string" where
  "truncate_message message max_chars =
     (case message of
        None \<Rightarrow> Inl TypeError
      | Some m \<Rightarrow>
          if int (length m) \<le> max_chars then Inr m
          else Inr (py_slice_to m (max_chars - 3) @ ''...''))"

section \<open>User actions and the modal wait\<close>

text \<open>
  What the user (or the toolkit) does while a dialog is open. A dialog reacts to the
  actions it has a binding or a widget for and ignores the others. \<open>Click i\<close> is a
  click on the \<open>i\<close>-th item label of a selection dialog, \<open>TypeText s\<close> an edit after
  which the entry of a prompt holds \<open>s\<close>, and \<open>ToolkitError\<close> a call of
  \<^verbatim>\<open>app.update()\<close> that raises.
\<close>

datatype ui_event =
    CancelButton
  | ConfirmButton
  | KeyReturn
  | KeyEscape
  | WindowClose
  | KeyUp
  | KeyDown
  | KeySpace
  | Click int
  | TypeText string
  | ToolkitError

text \<open>
  \<^verbatim>\<open>Dialog._block_process_until_result\<close>: while the slot is \<^verbatim>\<open>None\<close>, call
  \<^verbatim>\<open>app.update()\<close> and sleep; an exception of the update leaves the loop. Each element
  of the list is the action that one call of \<^verbatim>\<open>app.update()\<close> dispatches, and \<open>update\<close>
  is that call (\<open>Inl\<close> when it raises). The loop has no timeout: once the actions are
  used up with the slot still \<^verbatim>\<open>None\<close> it polls forever, which is the result \<open>None\<close>.
  The fade-in of \<^verbatim>\<open>_force_foreground\<close>, which runs before the loop, only draws; the
  actions are those that arrive once the window is shown.
\<close>

fun block_process_until_result ::
  "('s \<Rightarrow> py_value) \<Rightarrow> (ui_event \<Rightarrow> 's \<Rightarrow> error + 's) \<Rightarrow> ui_event list \<Rightarrow> 's \<Rightarrow> 's option"
where
  "block_process_until_result flag update [] st =
     (if flag st = PyNone then None else Some st)"
| "block_process_until_result flag update (e # es) st =
     (if flag st = PyNone then
        (case update e st of
           Inl err \<Rightarrow> Some st
         | Inr st' \<Rightarrow> block_process_until_result flag update es st')
      else Some st)"

text \<open>
  A call of a dialog function: \<open>Some (w, r)\<close> when it ends, having made \<open>w\<close> windows
  with \<^verbatim>\<open>_create_new_window\<close>, by raising (\<open>r = Inl e\<close>) or returning (\<open>r = Inr v\<close>);
  \<open>None\<close> when it waits forever.
\<close>

type_synonym dialog_call = "(nat \<times> (error + py_value)) option"

section \<open>The shared input dialog: prompt and confirm\<close>

text \<open>
  The state that the callbacks of \<^verbatim>\<open>_base_input_dialog\<close> close over: the slot
  \<^verbatim>\<open>result_container["value"]\<close> and the entry widget, here its text (\<open>None\<close> when no
  entry was made).
\<close>

record input_state =
  result_container :: py_value
  input_entry :: "string option"

definition do_cancel :: "input_state \<Rightarrow> input_state" where
  "do_cancel st = st\<lparr>result_container := CANCEL_SIGNAL\<rparr>"

definition do_confirm :: "bool \<Rightarrow> input_state \<Rightarrow> input_state" where
  "do_confirm is_input st =
     (case input_entry st of
        Some text \<Rightarrow>
          if is_input then
            (let v = py_strip text
             in st\<lparr>result_container := PyStr (if v \<noteq> [] then v else [])\<rparr>)
          else st\<lparr>result_container := PyBool True\<rparr>
      | None \<Rightarrow> st\<lparr>result_container := PyBool True\<rparr>)"

text \<open>
  One \<^verbatim>\<open>app.update()\<close> of the input dialog. The two buttons, \<^verbatim>\<open><Return>\<close>, \<^verbatim>\<open><Escape>\<close>
  and \<^verbatim>\<open>WM_DELETE_WINDOW\<close> are bound; neither callback can raise.
\<close>

fun input_update :: "bool \<Rightarrow> ui_event \<Rightarrow> input_state \<Rightarrow> error + input_state" where
  "input_update is_input CancelButton st = Inr (do_cancel st)"
| "input_update is_input KeyEscape st = Inr (do_cancel st)"
| "input_update is_input WindowClose st = Inr (do_cancel st)"
| "input_update is_input ConfirmButton st = Inr (do_confirm is_input st)"
| "input_update is_input KeyReturn st = Inr (do_confirm is_input st)"
| "input_update is_input (TypeText s) st =
     Inr (case input_entry st of None \<Rightarrow> st | Some old \<Rightarrow> st\<lparr>input_entry := Some s\<rparr>)"
| "input_update is_input ToolkitError st = Inl TclError"
| "input_update is_input KeyUp st = Inr st"
| "input_update is_input KeyDown st = Inr st"
| "input_update is_input KeySpace st = Inr st"
| "input_update is_input (Click i) st = Inr st"

text \<open>
  The end of \<^verbatim>\<open>_base_input_dialog\<close>, after the window is gone: the slot's final value
  decides between raising and returning.
\<close>

definition final_outcome :: "bool \<Rightarrow> py_value \<Rightarrow> error + py_value" where
  "final_outcome is_input final_value =
     (if final_value = CANCEL_SIGNAL then
        (if is_input then Inl (ValueError ''Input required: Dialog was canceled.'')
         else Inr (PyBool False))
      else if is_input then
        (if \<not> truthy final_value \<and> final_value \<noteq> PyStr []
         then Inl (ValueError ''Input required: blank input.'')
         else Inr final_value)
      else Inr (PyBool (truthy final_value)))"

definition base_input_dialog :: "string option \<Rightarrow> bool \<Rightarrow> string \<Rightarrow> ui_event list \<Rightarrow> dialog_call"
where
  "base_input_dialog message is_input default_text events =
     (if \<not> str_truthy message
      then Some (0, Inl (ValueError ''A message must be provided for input dialogs.''))
      else
        (case truncate_message message MESSAGE_MAX_LENGTH of
           Inl err \<Rightarrow> Some (1, Inl err)
         | Inr truncated_message \<Rightarrow>
             (case block_process_until_result result_container (input_update is_input) events
                     \<lparr>result_container = PyNone,
                      input_entry = (if is_input then Some default_text else None)\<rparr> of
                None \<Rightarrow> None
              | Some st \<Rightarrow> Some (1, final_outcome is_input (result_container st)))))"

definition prompt :: "string option \<Rightarrow> string \<Rightarrow> ui_event list \<Rightarrow> dialog_call" where
  "prompt message default_text events = base_input_dialog message True default_text events"

definition confirm :: "string option \<Rightarrow> ui_event list \<Rightarrow> dialog_call" where
  "confirm message events = base_input_dialog message False [] events"

section \<open>The alert dialog\<close>

text \<open>
  One \<^verbatim>\<open>app.update()\<close> of the alert: the OK button, \<^verbatim>\<open><Return>\<close>, \<^verbatim>\<open><Escape>\<close> and
  \<^verbatim>\<open>WM_DELETE_WINDOW\<close> all dismiss it. The state is the slot alone.
\<close>

fun alert_update :: "ui_event \<Rightarrow> py_value \<Rightarrow> error + py_value" where
  "alert_update ConfirmButton v = Inr (PyBool True)"
| "alert_update KeyReturn v = Inr (PyBool True)"
| "alert_update KeyEscape v = Inr (PyBool True)"
| "alert_update WindowClose v = Inr (PyBool True)"
| "alert_update ToolkitError v = Inl TclError"
| "alert_update CancelButton v = Inr v"
| "alert_update KeyUp v = Inr v"
| "alert_update KeyDown v = Inr v"
| "alert_update KeySpace v = Inr v"
| "alert_update (Click i) v = Inr v"
| "alert_update (TypeText s) v = Inr v"

text \<open>
  \<^verbatim>\<open>Dialog._base_alert_dialog\<close>. The title, the kind and the icon only choose what is
  drawn. After \<^verbatim>\<open>_safe_finish\<close> the function asks the toolkit whether the window still
  exists and destroys it if so; what these two toolkit calls do on a window already torn
  down is the parameter \<open>teardown\<close> (\<open>Some e\<close>: they raise \<open>e\<close>).
\<close>

definition base_alert_dialog :: "error option \<Rightarrow> string option \<Rightarrow> ui_event list \<Rightarrow> dialog_call"
where
  "base_alert_dialog teardown message events =
     (if message = None then Some (0, Inl (ValueError ''Alert message must be provided.''))
      else
        (case truncate_message message MESSAGE_MAX_LENGTH of
           Inl err \<Rightarrow> Some (1, Inl err)
         | Inr truncated_message \<Rightarrow>
             (case block_process_until_result id alert_update events PyNone of
                None \<Rightarrow> None
              | Some v \<Rightarrow>
                  (case teardown of
                     Some err \<Rightarrow> Some (1, Inl err)
                   | None \<Rightarrow> Some (1, Inr PyNone)))))"

definition alert :: "error option \<Rightarrow> string option \<Rightarrow> ui_event list \<Rightarrow> dialog_call" where
  "alert teardown message events = base_alert_dialog teardown message events"

section \<open>The selection dialog\<close>

text \<open>
  The variables that the callbacks of \<^verbatim>\<open>Dialog.selection\<close> share: the slot
  \<^verbatim>\<open>result_container["value"]\<close>, the Python set \<^verbatim>\<open>selected_indices\<close> and the focus
  index.
\<close>

record selection_state =
  selection_result :: py_value
  selected_indices :: "int set"
  active_focus_index :: int

definition handle_toggle_selection :: "bool \<Rightarrow> int \<Rightarrow> selection_state \<Rightarrow> selection_state" where
  "handle_toggle_selection multiple index_to_toggle st =
     (let focused = st\<lparr>active_focus_index := index_to_toggle\<rparr>
      in if multiple then
           (if index_to_toggle \<in> selected_indices focused
            then focused\<lparr>selected_indices := selected_indices focused - {index_to_toggle}\<rparr>
            else focused\<lparr>selected_indices := insert index_to_toggle (selected_indices focused)\<rparr>)
         else focused\<lparr>selected_indices := insert index_to_toggle {}\<rparr>)"

definition handle_move_up :: "string list \<Rightarrow> selection_state \<Rightarrow> error + selection_state" where
  "handle_move_up selections st =
     (case py_mod (active_focus_index st - 1) (int (length selections)) of
        Inl err \<Rightarrow> Inl err
      | Inr i \<Rightarrow> Inr (st\<lparr>active_focus_index := i\<rparr>))"

definition handle_move_down :: "string list \<Rightarrow> selection_state \<Rightarrow> error + selection_state" where
  "handle_move_down selections st =
     (case py_mod (active_focus_index st + 1) (int (length selections)) of
        Inl err \<Rightarrow> Inl err
      | Inr i \<Rightarrow> Inr (st\<lparr>active_focus_index := i\<rparr>))"

text \<open>
  \<^verbatim>\<open>[selections[index] for index in selected_indices]\<close>. Python iterates a set in an
  order that the language leaves open (it is the layout of the hash table); the order
  is the parameter \<open>iteration_order\<close>, which lists the members of a set.
\<close>

fun getitems :: "string list \<Rightarrow> int list \<Rightarrow> error + string list" where
  "getitems selections [] = Inr []"
| "getitems selections (index # rest) =
     (case py_getitem selections index of
        Inl err \<Rightarrow> Inl err
      | Inr item \<Rightarrow>
          (case getitems selections rest of
             Inl err \<Rightarrow> Inl err
           | Inr items \<Rightarrow> Inr (item # items)))"

definition selected_items :: "(int set \<Rightarrow> int list) \<Rightarrow> string list \<Rightarrow> int set \<Rightarrow> error + string list"
where
  "selected_items iteration_order selections chosen = getitems selections (iteration_order chosen)"

definition perform_confirmation ::
  "(int set \<Rightarrow> int list) \<Rightarrow> string list \<Rightarrow> bool \<Rightarrow> selection_state \<Rightarrow> error + selection_state"
where
  "perform_confirmation iteration_order selections optional st =
     (if \<not> optional \<and> selected_indices st = {} then Inl (ValueError ''Selection required.'')
      else
        (case selected_items iteration_order selections (selected_indices st) of
           Inl err \<Rightarrow> Inl err
         | Inr items \<Rightarrow> Inr (st\<lparr>selection_result := PyList items\<rparr>)))"

definition perform_cancellation :: "selection_state \<Rightarrow> selection_state" where
  "perform_cancellation st = st\<lparr>selection_result := CANCEL_SIGNAL\<rparr>"

text \<open>
  The callback that the selection dialog runs for an action: the bindings of
  \<^verbatim>\<open><Up>\<close>, \<^verbatim>\<open><Down>\<close>, \<^verbatim>\<open><space>\<close>, \<^verbatim>\<open><Return>\<close>, \<^verbatim>\<open><Escape>\<close>, the two buttons, and
  \<^verbatim>\<open><Button-1>\<close> on each item label (there is a label for each index of the candidate
  list and no other). \<open>Inl\<close> is an exception that the callback raises.
\<close>

fun selection_callback ::
  "(int set \<Rightarrow> int list) \<Rightarrow> string list \<Rightarrow> bool \<Rightarrow> bool \<Rightarrow> ui_event \<Rightarrow> selection_state
     \<Rightarrow> error + selection_state"
where
  "selection_callback ord selections multiple optional KeyUp st = handle_move_up selections st"
| "selection_callback ord selections multiple optional KeyDown st = handle_move_down selections st"
| "selection_callback ord selections multiple optional KeySpace st =
     Inr (handle_toggle_selection multiple (active_focus_index st) st)"
| "selection_callback ord selections multiple optional (Click idx) st =
     (if 0 \<le> idx \<and> idx < int (length selections)
      then Inr (handle_toggle_selection multiple idx st) else Inr st)"
| "selection_callback ord selections multiple optional KeyReturn st =
     perform_confirmation ord selections optional st"
| "selection_callback ord selections multiple optional ConfirmButton st =
     perform_confirmation ord selections optional st"
| "selection_callback ord selections multiple optional KeyEscape st = Inr (perform_cancellation st)"
| "selection_callback ord selections multiple optional CancelButton st = Inr (perform_cancellation st)"
| "selection_callback ord selections multiple optional WindowClose st = Inr st"
| "selection_callback ord selections multiple optional (TypeText s) st = Inr st"
| "selection_callback ord selections multiple optional ToolkitError st = Inr st"

text \<open>
  One \<^verbatim>\<open>app.update()\<close> of the selection dialog. The dialog registers no handler for
  \<^verbatim>\<open>WM_DELETE_WINDOW\<close>, so closing the window lets the toolkit destroy it, and the
  update raises. An exception raised by a callback is the toolkit's to handle: tkinter
  reports it on the error stream and goes on (\<open>reraise = False\<close>); \<open>reraise = True\<close>
  is a toolkit that lets it out of \<^verbatim>\<open>app.update()\<close>. Every callback raises before it
  assigns, so a failed callback leaves the state as it was.
\<close>

definition selection_update ::
  "(int set \<Rightarrow> int list) \<Rightarrow> bool \<Rightarrow> string list \<Rightarrow> bool \<Rightarrow> bool \<Rightarrow> ui_event \<Rightarrow> selection_state
     \<Rightarrow> error + selection_state"
where
  "selection_update ord reraise selections multiple optional e st =
     (if e = WindowClose \<or> e = ToolkitError then Inl TclError
      else
        (case selection_callback ord selections multiple optional e st of
           Inl err \<Rightarrow> if reraise then Inl err else Inr st
         | Inr st' \<Rightarrow> Inr st'))"

text \<open>
  The callbacks run one after the other on the actions of a list, a failed callback
  changing nothing.
\<close>

fun run_callbacks ::
  "(int set \<Rightarrow> int list) \<Rightarrow> string list \<Rightarrow> bool \<Rightarrow> bool \<Rightarrow> ui_event list \<Rightarrow> selection_state
     \<Rightarrow> selection_state"
where
  "run_callbacks ord selections multiple optional [] st = st"
| "run_callbacks ord selections multiple optional (e # es) st =
     (case selection_callback ord selections multiple optional e st of
        Inl err \<Rightarrow> run_callbacks ord selections multiple optional es st
      | Inr st' \<Rightarrow> run_callbacks ord selections multiple optional es st')"

definition initial_selection_state :: selection_state where
  "initial_selection_state =
     \<lparr>selection_result = PyNone, selected_indices = {}, active_focus_index = 0\<rparr>"

fun list_result :: "error + string list \<Rightarrow> error + py_value" where
  "list_result (Inl err) = Inl err"
| "list_result (Inr items) = Inr (PyList items)"

definition selection ::
  "(int set \<Rightarrow> int list) \<Rightarrow> bool \<Rightarrow> string option \<Rightarrow> string list option \<Rightarrow> bool \<Rightarrow> bool
     \<Rightarrow> ui_event list \<Rightarrow> dialog_call"
where
  "selection ord reraise message selections multiple optional events =
     (case selections of
        None \<Rightarrow> Some (0, Inl (ValueError ''The 'selections' parameter cannot be None.''))
      | Some candidates \<Rightarrow>
          (case truncate_message message MESSAGE_MAX_LENGTH of
             Inl err \<Rightarrow> Some (1, Inl err)
           | Inr truncated_message \<Rightarrow>
               (case block_process_until_result selection_result
                       (selection_update ord reraise candidates multiple optional) events
                       initial_selection_state of
                  None \<Rightarrow> None
                | Some st \<Rightarrow>
                    if selection_result st = CANCEL_SIGNAL then Some (1, Inr PyNone)
                    else Some (1, list_result
                           (selected_items ord candidates (selected_indices st))))))"

text \<open>
  Two iteration orders. \<open>index_order\<close> lists a set in ascending order. \<open>table_order\<close>
  is the order of CPython for a set of fewer than five small non-negative integers no
  two of which agree modulo 8: the integer \<open>n\<close> lies in slot \<open>n mod 8\<close> of a table of
  eight slots, and the table is read from slot 0 on.
\<close>

definition index_order :: "int set \<Rightarrow> int list" where
  "index_order chosen = sorted_list_of_set chosen"

definition table_order :: "int set \<Rightarrow> int list" where
  "table_order chosen = sort_key (\<lambda>n. n mod 8) (sorted_list_of_set chosen)"

section \<open>The folder picker\<close>

text \<open>
  The value that \<^verbatim>\<open>json.loads\<close> returns; a number is kept as the text of its literal.
\<close>

datatype json =
    JNull
  | JBool bool
  | JNumber string
  | JString string
  | JArray "json list"
  | JObject "(string \<times> json) list"

text \<open>
  What \<^verbatim>\<open>subprocess.run\<close> meets: no executable at the path, another failure to start
  the process, a process whose output is not text in the encoding that \<^verbatim>\<open>text=True\<close>
  decodes with, or a process that ends with a return code, its standard output and its
  standard error.
\<close>

datatype process_outcome =
    NotFound
  | SpawnError
  | Undecodable
  | Exited int string string

text \<open>The lines that \<^verbatim>\<open>folder_picker\<close> prints.\<close>

datatype log_entry =
    PickerStderr string
  | ExeNotFound string
  | RunFailed string
  | RunFailedStatus "string list" int
  | InvalidJson

definition bool_lower :: "bool \<Rightarrow> string" where
  "bool_lower b = (if b then ''true'' else ''false'')"

definition picker_command ::
  "string \<Rightarrow> string option \<Rightarrow> bool \<Rightarrow> string option \<Rightarrow> bool \<Rightarrow> string list"
where
  "picker_command exe_path initialdir return_full_paths title multi_folder =
     [exe_path]
     @ (case initialdir of
          None \<Rightarrow> []
        | Some d \<Rightarrow> if d \<noteq> [] then [''--default_path='' @ d] else [])
     @ [''--return_full_paths='' @ bool_lower return_full_paths]
     @ (case title of
          None \<Rightarrow> []
        | Some t \<Rightarrow> if t \<noteq> [] then [''--title='' @ t] else [])
     @ [''--multi-folder='' @ bool_lower multi_folder]"

text \<open>
  \<^verbatim>\<open>folder_picker\<close>, on the platform it is written for (the process-creation flag it
  passes exists on Windows only). The path of the executable, the process
  (\<open>run\<close>, from the command line to what happens) and the JSON parser (\<open>loads\<close>,
  \<open>Inl\<close> for the exception it raises) are parameters. Of the exceptions of the
  parser only \<^verbatim>\<open>JSONDecodeError\<close> has an \<^verbatim>\<open>except\<close> clause; any other leaves the
  function, as the decoding error of the process output does. The result is the value
  returned or the exception that escapes, with the lines printed.
\<close>

definition folder_picker ::
  "string \<Rightarrow> (string list \<Rightarrow> process_outcome) \<Rightarrow> (string \<Rightarrow> error + json)
     \<Rightarrow> string option \<Rightarrow> bool \<Rightarrow> string option \<Rightarrow> bool \<Rightarrow> (error + json list) \<times> log_entry list"
where
  "folder_picker exe_path run loads initialdir return_full_paths title multi_folder =
     (let command = picker_command exe_path initialdir return_full_paths title multi_folder
      in case run command of
           NotFound \<Rightarrow> (Inr [], [ExeNotFound exe_path])
         | SpawnError \<Rightarrow> (Inl OSError, [])
         | Undecodable \<Rightarrow> (Inl UnicodeDecodeError, [])
         | Exited returncode stdout stderr \<Rightarrow>
             if returncode \<noteq> 0 then
               (Inr [], [if stderr \<noteq> [] then RunFailed (py_strip stderr)
                         else RunFailedStatus command returncode])
             else
               (let printed = (if stderr \<noteq> [] then [PickerStderr (py_strip stderr)] else []);
                    json_output = py_strip stdout
                in if json_output = [] then (Inr [], printed)
                   else
                     (case loads json_output of
                        Inl err \<Rightarrow>
                          if err = JSONDecodeError then (Inr [], printed @ [InvalidJson])
                          else (Inl err, printed)
                      | Inr (JArray parsed) \<Rightarrow> (Inr parsed, printed)
                      | Inr other \<Rightarrow> (Inr [], printed))))"

text \<open>
  What \<^verbatim>\<open>json.loads\<close> does on a few texts, for trying the picker out. A text that
  only opens arrays is not JSON; when it opens enough of them the recursion guard of the
  decoder stops it with \<^verbatim>\<open>RecursionError\<close> before the end of the text is seen (under
  the default recursion limit of 1000 a thousand brackets are enough).
\<close>

definition sample_loads :: "string \<Rightarrow> error + json" where
  \<open>sample_loads s =
     (if 100000 \<le> length s \<and> set s \<subseteq> {CHR ''[''} then Inl RecursionError
      else if s = ''[]'' then Inr (JArray [])
      else if s = ''["C:/a"]'' then Inr (JArray [JString ''C:/a''])
      else if s = ''{}'' then Inr (JObject [])
      else Inl JSONDecodeError)\<close>

section \<open>Properties of the truncation\<close>

text \<open>
  Claim C6. For every message string the truncation returns normally: a message of at
  most 500 characters is displayed unchanged, a longer one as its first 497 characters
  followed by three dots.
\<close>

theorem truncate_message_display:
  "truncate_message (Some m) MESSAGE_MAX_LENGTH =
     Inr (if length m \<le> 500 then m else take 497 m @ ''...'')"
  by (simp add: truncate_message_def MESSAGE_MAX_LENGTH_def py_slice_to_def)

text \<open>
  Claim C10. The truncation bounds the length and is idempotent: for every string it
  returns a text of at most 500 characters, and truncating that text again returns it
  unchanged.
\<close>

theorem truncate_message_idempotent:
  "\<exists>t. truncate_message (Some m) MESSAGE_MAX_LENGTH = Inr t \<and> length t \<le> 500 \<and>
       truncate_message (Some t) MESSAGE_MAX_LENGTH = Inr t"
  by (simp add: truncate_message_def MESSAGE_MAX_LENGTH_def py_slice_to_def)


section \<open>Properties of the modal wait\<close>

lemma block_done:
  "flag st \<noteq> PyNone \<Longrightarrow> block_process_until_result flag update es st = Some st"
  by (cases es) simp_all

text \<open>
  A wait that is still going on after the actions \<open>pre\<close> has reached a state with an
  empty slot, from which it goes on with the actions that follow.
\<close>

lemma block_waiting_append:
  assumes "block_process_until_result flag update pre st = None"
    and "P st"
    and "\<And>e s s'. P s \<Longrightarrow> update e s = Inr s' \<Longrightarrow> P s'"
  shows "\<exists>st'. P st' \<and> flag st' = PyNone \<and>
     (\<forall>es. block_process_until_result flag update (pre @ es) st =
           block_process_until_result flag update es st')"
  using assms(1,2)
proof (induction pre arbitrary: st)
  case Nil
  then show ?case by (auto split: if_splits)
next
  case (Cons e pre)
  from Cons.prems(1) have none: "flag st = PyNone"
    by (simp split: if_splits)
  with Cons.prems(1) obtain s' where step: "update e st = Inr s'"
    and rest: "block_process_until_result flag update pre s' = None"
    by (auto split: sum.splits)
  from assms(3) [OF Cons.prems(2) step] have "P s'" .
  from Cons.IH [OF rest this] obtain st' where "P st'" "flag st' = PyNone"
    "\<forall>es. block_process_until_result flag update (pre @ es) s' =
           block_process_until_result flag update es st'"
    by blast
  with none step show ?case by auto
qed

text \<open>What every update keeps, the state at the end of the wait has.\<close>

lemma block_invariant:
  assumes "block_process_until_result flag update es st = Some st'"
    and "P st"
    and "\<And>e s s'. P s \<Longrightarrow> update e s = Inr s' \<Longrightarrow> P s'"
  shows "P st'"
  using assms(1,2)
proof (induction es arbitrary: st)
  case Nil
  then show ?case by (simp split: if_splits)
next
  case (Cons e es)
  show ?case
  proof (cases "flag st = PyNone")
    case False
    with Cons.prems show ?thesis by simp
  next
    case True
    show ?thesis
    proof (cases "update e st")
      case (Inl err)
      with True Cons.prems show ?thesis by simp
    next
      case (Inr s')
      with True Cons.prems have "block_process_until_result flag update es s' = Some st'"
        by simp
      moreover from assms(3) [OF Cons.prems(2) Inr] have "P s'" .
      ultimately show ?thesis by (rule Cons.IH)
    qed
  qed
qed

lemmas dialog_eval =
  selection_def base_input_dialog_def base_alert_dialog_def alert_def prompt_def confirm_def
  truncate_message_def MESSAGE_MAX_LENGTH_def selection_update_def initial_selection_state_def
  perform_cancellation_def perform_confirmation_def selected_items_def py_getitem_def
  handle_toggle_selection_def handle_move_up_def handle_move_down_def py_mod_def
  do_cancel_def do_confirm_def final_outcome_def index_order_def

section \<open>Cancellation\<close>

lemma prompt_cancel:
  assumes waiting: "prompt message d pre = None"
    and c: "c \<in> {CancelButton, KeyEscape, WindowClose}"
  shows "prompt message d (pre @ c # rest) =
           Some (1, Inl (ValueError ''Input required: Dialog was canceled.''))"
proof -
  from waiting obtain shown where ok: "str_truthy message"
    and tr: "truncate_message message MESSAGE_MAX_LENGTH = Inr shown"
    and blk: "block_process_until_result result_container (input_update True) pre
               \<lparr>result_container = PyNone, input_entry = Some d\<rparr> = None"
    by (auto simp: prompt_def base_input_dialog_def split: if_splits sum.splits option.splits)
  from block_waiting_append [OF blk, where P = "\<lambda>s. True"] obtain st' where
    none: "result_container st' = PyNone" and
    cont: "\<And>es. block_process_until_result result_container (input_update True) (pre @ es)
               \<lparr>result_container = PyNone, input_entry = Some d\<rparr> =
             block_process_until_result result_container (input_update True) es st'"
    by blast
  from c have upd: "input_update True c st' = Inr (do_cancel st')" by auto
  have "block_process_until_result result_container (input_update True) (c # rest) st'
          = Some (do_cancel st')"
    using none upd by (simp add: block_done do_cancel_def)
  with cont [of "c # rest"] ok tr show ?thesis
    by (simp add: prompt_def base_input_dialog_def do_cancel_def final_outcome_def)
qed

lemma selection_cancel:
  assumes waiting: "selection ord r message sels multiple optional pre = None"
    and c: "c \<in> {CancelButton, KeyEscape}"
  shows "selection ord r message sels multiple optional (pre @ c # rest) = Some (1, Inr PyNone)"
proof -
  from waiting obtain cands shown where s: "sels = Some cands"
    and tr: "truncate_message message MESSAGE_MAX_LENGTH = Inr shown"
    and blk: "block_process_until_result selection_result
                (selection_update ord r cands multiple optional) pre initial_selection_state = None"
    by (auto simp: selection_def split: if_splits sum.splits option.splits)
  from block_waiting_append [OF blk, where P = "\<lambda>s. True"] obtain st' where
    none: "selection_result st' = PyNone" and
    cont: "\<And>es. block_process_until_result selection_result
               (selection_update ord r cands multiple optional) (pre @ es) initial_selection_state =
             block_process_until_result selection_result
               (selection_update ord r cands multiple optional) es st'"
    by blast
  from c have upd:
    "selection_update ord r cands multiple optional c st' = Inr (perform_cancellation st')"
    by (auto simp: selection_update_def)
  have "block_process_until_result selection_result
          (selection_update ord r cands multiple optional) (c # rest) st'
          = Some (perform_cancellation st')"
    using none upd by (simp add: block_done perform_cancellation_def)
  with cont [of "c # rest"] s tr show ?thesis
    by (simp add: selection_def perform_cancellation_def)
qed

text \<open>
  Claim C1, as the code has it. While the dialog is open (the call has not ended after
  the actions \<open>pre\<close>), a cancellation ends the call: a prompt raises the error
  \<^verbatim>\<open>ValueError("Input required: Dialog was canceled.")\<close> on the cancel button, on
  Escape and on closing the window; a selection dialog returns \<^verbatim>\<open>None\<close> on the cancel
  button and on Escape.
\<close>

theorem cancellation_outcomes:
  "(prompt message d pre = None \<and> c \<in> {CancelButton, KeyEscape, WindowClose} \<longrightarrow>
      prompt message d (pre @ c # rest) =
        Some (1, Inl (ValueError ''Input required: Dialog was canceled.''))) \<and>
   (selection ord r message sels multiple optional pre = None \<and> c \<in> {CancelButton, KeyEscape} \<longrightarrow>
      selection ord r message sels multiple optional (pre @ c # rest) = Some (1, Inr PyNone))"
  using prompt_cancel selection_cancel by blast

theorem cancellation_outcomes_witness:
  "prompt (Some ''Name?'') ''Al'' [TypeText ''Alice''] = None \<and>
   prompt (Some ''Name?'') ''Al'' ([TypeText ''Alice''] @ WindowClose # [KeyReturn]) =
     Some (1, Inl (ValueError ''Input required: Dialog was canceled.'')) \<and>
   selection index_order False (Some ''Pick'') (Some [''a'', ''b'']) False False [Click 1] = None \<and>
   selection index_order False (Some ''Pick'') (Some [''a'', ''b'']) False False
     ([Click 1] @ CancelButton # [KeyReturn]) = Some (1, Inr PyNone)"
proof -
  have p: "prompt (Some ''Name?'') ''Al'' [TypeText ''Alice''] = None"
    by (simp add: dialog_eval)
  have s: "selection index_order False (Some ''Pick'') (Some [''a'', ''b'']) False False [Click 1]
             = None"
    by (simp add: dialog_eval)
  from p s
    cancellation_outcomes [of "Some ''Name?''" "''Al''" "[TypeText ''Alice'']" WindowClose
      "[KeyReturn]" index_order False "Some [''a'', ''b'']" False False]
    cancellation_outcomes [of "Some ''Pick''" "[]" "[Click 1]" CancelButton
      "[KeyReturn]" index_order False "Some [''a'', ''b'']" False False]
  show ?thesis by simp
qed

text \<open>
  Claim C1 as stated fails for the selection dialog: on Escape the call returns the
  special value \<^verbatim>\<open>None\<close> and raises nothing.
\<close>

theorem selection_cancel_returns_none:
  "selection index_order False (Some ''Pick'') (Some [''a'', ''b'']) False False [KeyEscape]
     = Some (1, Inr PyNone)"
  by (simp add: dialog_eval)

section \<open>Validation of the message\<close>

text \<open>
  Claim C2, as the code has it. A prompt and a confirm dialog called with \<^verbatim>\<open>None\<close> or
  with the empty string as message raise \<^verbatim>\<open>ValueError\<close> before any window is made, and
  so does an alert called with \<^verbatim>\<open>None\<close>.
\<close>

theorem message_validation:
  "(\<not> str_truthy message \<longrightarrow>
      prompt message d evs =
        Some (0, Inl (ValueError ''A message must be provided for input dialogs.'')) \<and>
      confirm message evs =
        Some (0, Inl (ValueError ''A message must be provided for input dialogs.''))) \<and>
   alert teardown None evs = Some (0, Inl (ValueError ''Alert message must be provided.''))"
  by (simp add: prompt_def confirm_def base_input_dialog_def alert_def base_alert_dialog_def)

theorem message_validation_witness:
  "\<not> str_truthy (Some []) \<and> \<not> str_truthy None \<and>
   prompt (Some []) ''Al'' [KeyReturn] =
     Some (0, Inl (ValueError ''A message must be provided for input dialogs.'')) \<and>
   confirm None [KeyReturn] =
     Some (0, Inl (ValueError ''A message must be provided for input dialogs.'')) \<and>
   alert None None [KeyReturn] = Some (0, Inl (ValueError ''Alert message must be provided.''))"
  using message_validation [of "Some []" "''Al''" "[KeyReturn]" None]
    message_validation [of None "''Al''" "[KeyReturn]" None]
  by simp

text \<open>
  Claim C2 as stated fails for the alert and the selection dialog: an alert with the
  empty string as message makes its window and returns once dismissed, a selection
  dialog with the empty string as message makes its window and runs, and a selection
  dialog with \<^verbatim>\<open>None\<close> as message fails with a \<^verbatim>\<open>TypeError\<close> after its window is made.
\<close>

theorem empty_message_accepted:
  "alert None (Some []) [ConfirmButton] = Some (1, Inr PyNone) \<and>
   selection index_order False (Some []) (Some [''a'']) False False [KeyEscape]
     = Some (1, Inr PyNone) \<and>
   selection index_order False None (Some [''a'']) False False [KeyEscape]
     = Some (1, Inl TypeError)"
  by (simp add: dialog_eval)

section \<open>Confirming an empty selection\<close>

text \<open>
  Claim C3 at the input where the code departs from it: a selection dialog that is not
  optional, with nothing selected, and the user presses Return. The callback raises
  \<^verbatim>\<open>ValueError("Selection required.")\<close>, but the call does not: under tkinter, which
  reports the exception of a callback and goes on, the dialog stays open, and returns
  the empty list when its window is closed; under a toolkit that lets the exception out
  of the update, the wait loop catches it and the call returns the empty list.
\<close>

theorem selection_required_not_raised:
  "perform_confirmation index_order [''a'', ''b''] False initial_selection_state
     = Inl (ValueError ''Selection required.'') \<and>
   selection index_order False (Some ''Pick'') (Some [''a'', ''b'']) False False [KeyReturn]
     = None \<and>
   selection index_order False (Some ''Pick'') (Some [''a'', ''b'']) False False
     [KeyReturn, WindowClose] = Some (1, Inr (PyList [])) \<and>
   selection index_order True (Some ''Pick'') (Some [''a'', ''b'']) False False [KeyReturn]
     = Some (1, Inr (PyList []))"
  by (simp add: dialog_eval)

section \<open>Moving the focus\<close>

text \<open>
  Claim C9 at the input where the code departs from it: the empty candidate list, which
  the dialog accepts (the call waits for the user). Both focus moves divide by the
  number of candidates and raise \<^verbatim>\<open>ZeroDivisionError\<close>; under a toolkit that lets the
  exception out of the update, Up ends the call.
\<close>

theorem focus_move_fails_on_empty_list:
  "handle_move_up [] initial_selection_state = Inl ZeroDivisionError \<and>
   handle_move_down [] initial_selection_state = Inl ZeroDivisionError \<and>
   selection index_order False (Some ''Pick'') (Some []) False True [] = None \<and>
   selection index_order False (Some ''Pick'') (Some []) False True [KeyUp] = None \<and>
   selection index_order True (Some ''Pick'') (Some []) False True [KeyUp]
     = Some (1, Inr (PyList []))"
  by (simp add: dialog_eval)


section \<open>The folder picker's results\<close>

lemma strip_samples:
  "py_strip [] = []" "py_strip '' [] '' = ''[]''" "py_strip ''not json'' = ''not json''"
  "py_strip ''{}'' = ''{}''" \<open>py_strip ''["C:/a"]'' = ''["C:/a"]''\<close>
  "py_strip '' boom '' = ''boom''" "py_strip '' Bob '' = ''Bob''"
  by (simp_all add: py_strip_def py_isspace_def)

text \<open>
  What \<^verbatim>\<open>folder_picker\<close> does whatever the process and the parser are. A missing
  executable and a non-zero return code give the empty list and one printed line (the
  trimmed standard error when there is one). After a return code of zero, an output that
  is empty once trimmed gives the empty list, a \<^verbatim>\<open>JSONDecodeError\<close> of the parser gives
  the empty list and a printed line, a JSON array gives its elements, and any other JSON
  value gives the empty list; but any other exception of the parser leaves the function.
\<close>

lemma folder_picker_cases:
  "(run (picker_command exe initialdir full title multi) = NotFound \<longrightarrow>
      folder_picker exe run loads initialdir full title multi = (Inr [], [ExeNotFound exe])) \<and>
   (run (picker_command exe initialdir full title multi) = Exited rc out err \<and> rc \<noteq> 0 \<longrightarrow>
      folder_picker exe run loads initialdir full title multi =
        (Inr [], [if err \<noteq> [] then RunFailed (py_strip err)
                  else RunFailedStatus (picker_command exe initialdir full title multi) rc])) \<and>
   (run (picker_command exe initialdir full title multi) = Exited 0 out err \<longrightarrow>
      (py_strip out = [] \<longrightarrow>
         fst (folder_picker exe run loads initialdir full title multi) = Inr []) \<and>
      (py_strip out \<noteq> [] \<and> loads (py_strip out) = Inl JSONDecodeError \<longrightarrow>
         fst (folder_picker exe run loads initialdir full title multi) = Inr [] \<and>
         InvalidJson \<in> set (snd (folder_picker exe run loads initialdir full title multi))) \<and>
      (py_strip out \<noteq> [] \<and> loads (py_strip out) = Inl e \<and> e \<noteq> JSONDecodeError \<longrightarrow>
         fst (folder_picker exe run loads initialdir full title multi) = Inl e) \<and>
      (py_strip out \<noteq> [] \<and> loads (py_strip out) = Inr (JArray xs) \<longrightarrow>
         fst (folder_picker exe run loads initialdir full title multi) = Inr xs) \<and>
      (py_strip out \<noteq> [] \<and> loads (py_strip out) = Inr v \<and> (\<forall>ys. v \<noteq> JArray ys) \<longrightarrow>
         fst (folder_picker exe run loads initialdir full title multi) = Inr []))"
  by (auto simp: folder_picker_def Let_def split: json.splits)

lemma folder_picker_examples:
  \<open>folder_picker ''picker.exe'' (\<lambda>command. NotFound) sample_loads None True None True
     = (Inr [], [ExeNotFound ''picker.exe'']) \<and>
   folder_picker ''picker.exe'' (\<lambda>command. Exited 1 [] '' boom '') sample_loads None True None True
     = (Inr [], [RunFailed ''boom'']) \<and>
   folder_picker ''picker.exe'' (\<lambda>command. Exited 0 [] []) sample_loads None True None True
     = (Inr [], []) \<and>
   folder_picker ''picker.exe'' (\<lambda>command. Exited 0 '' [] '' []) sample_loads None True None True
     = (Inr [], []) \<and>
   folder_picker ''picker.exe'' (\<lambda>command. Exited 0 ''["C:/a"]'' []) sample_loads None True None True
     = (Inr [JString ''C:/a''], []) \<and>
   folder_picker ''picker.exe'' (\<lambda>command. Exited 0 ''not json'' []) sample_loads None True None True
     = (Inr [], [InvalidJson]) \<and>
   folder_picker ''picker.exe'' (\<lambda>command. Exited 0 ''{}'' []) sample_loads None True None True
     = (Inr [], [])\<close>
  by (simp add: folder_picker_def strip_samples sample_loads_def)

lemma strip_brackets:
  "py_strip (replicate n CHR ''['') = replicate n CHR ''[''"
proof -
  have "dropWhile py_isspace (replicate n CHR ''['') = replicate n CHR ''[''"
    by (cases n) (simp_all add: py_isspace_def)
  then show ?thesis by (simp add: py_strip_def)
qed

text \<open>
  Claim C4 at the input where the code departs from it: the picker ends with return
  code zero and prints a hundred thousand opening brackets, which is not JSON. The
  parser raises \<^verbatim>\<open>RecursionError\<close>, for which \<^verbatim>\<open>folder_picker\<close> has no \<^verbatim>\<open>except\<close>
  clause: the exception leaves the function, and no list is returned.
\<close>

theorem malformed_json_escapes:
  "sample_loads (replicate 100000 CHR ''['') = Inl RecursionError \<and>
   folder_picker ''picker.exe'' (\<lambda>command. Exited 0 (replicate 100000 CHR ''['') [])
     sample_loads None True None True = (Inl RecursionError, [])"
  by (simp add: folder_picker_def strip_brackets sample_loads_def)

section \<open>The outcome of the input dialog\<close>

lemma prompt_confirm_after_edit:
  assumes waiting: "prompt message d pre = None"
    and c: "c \<in> {ConfirmButton, KeyReturn}"
  shows "prompt message d (pre @ TypeText s # c # rest) = Some (1, Inr (PyStr (py_strip s)))"
proof -
  let ?init = "\<lparr>result_container = PyNone, input_entry = Some d\<rparr>"
  from waiting obtain shown where ok: "str_truthy message"
    and tr: "truncate_message message MESSAGE_MAX_LENGTH = Inr shown"
    and blk: "block_process_until_result result_container (input_update True) pre ?init = None"
    by (auto simp: prompt_def base_input_dialog_def split: if_splits sum.splits option.splits)
  have keep: "\<And>e s s'. input_entry s \<noteq> None \<Longrightarrow> input_update True e s = Inr s'
                \<Longrightarrow> input_entry s' \<noteq> None"
    subgoal for e s s'
      by (cases e) (auto simp: do_cancel_def do_confirm_def Let_def split: option.splits)
    done
  from block_waiting_append [OF blk, where P = "\<lambda>s. input_entry s \<noteq> None"] keep
  obtain st' where entry: "input_entry st' \<noteq> None"
    and none: "result_container st' = PyNone"
    and cont: "\<And>es. block_process_until_result result_container (input_update True) (pre @ es) ?init
               = block_process_until_result result_container (input_update True) es st'"
    by auto
  let ?edited = "st'\<lparr>input_entry := Some s\<rparr>"
  let ?final = "do_confirm True ?edited"
  from entry have e1: "input_update True (TypeText s) st' = Inr ?edited" by auto
  from c have e2: "input_update True c ?edited = Inr ?final" by auto
  have val: "result_container ?final = PyStr (py_strip s)"
    by (simp add: do_confirm_def Let_def)
  have "block_process_until_result result_container (input_update True)
          (TypeText s # c # rest) st' = Some ?final"
    using none e1 e2 val by (simp add: block_done)
  with cont [of "TypeText s # c # rest"] ok tr val show ?thesis
    by (simp add: prompt_def base_input_dialog_def final_outcome_def)
qed

lemma confirm_accept:
  assumes waiting: "confirm message pre = None"
    and c: "c \<in> {ConfirmButton, KeyReturn}"
  shows "confirm message (pre @ c # rest) = Some (1, Inr (PyBool True))"
proof -
  let ?init = "\<lparr>result_container = PyNone, input_entry = None\<rparr>"
  from waiting obtain shown where ok: "str_truthy message"
    and tr: "truncate_message message MESSAGE_MAX_LENGTH = Inr shown"
    and blk: "block_process_until_result result_container (input_update False) pre ?init = None"
    by (auto simp: confirm_def base_input_dialog_def split: if_splits sum.splits option.splits)
  from block_waiting_append [OF blk, where P = "\<lambda>s. True"]
  obtain st' where none: "result_container st' = PyNone"
    and cont: "\<And>es. block_process_until_result result_container (input_update False) (pre @ es) ?init
               = block_process_until_result result_container (input_update False) es st'"
    by auto
  let ?final = "do_confirm False st'"
  from c have e2: "input_update False c st' = Inr ?final" by auto
  have val: "result_container ?final = PyBool True"
    by (simp add: do_confirm_def split: option.splits)
  have "block_process_until_result result_container (input_update False) (c # rest) st' = Some ?final"
    using none e2 val by (simp add: block_done)
  with cont [of "c # rest"] ok tr val show ?thesis
    by (simp add: confirm_def base_input_dialog_def final_outcome_def)
qed

lemma confirm_cancel:
  assumes waiting: "confirm message pre = None"
    and c: "c \<in> {CancelButton, KeyEscape, WindowClose}"
  shows "confirm message (pre @ c # rest) = Some (1, Inr (PyBool False))"
proof -
  let ?init = "\<lparr>result_container = PyNone, input_entry = None\<rparr>"
  from waiting obtain shown where ok: "str_truthy message"
    and tr: "truncate_message message MESSAGE_MAX_LENGTH = Inr shown"
    and blk: "block_process_until_result result_container (input_update False) pre ?init = None"
    by (auto simp: confirm_def base_input_dialog_def split: if_splits sum.splits option.splits)
  from block_waiting_append [OF blk, where P = "\<lambda>s. True"]
  obtain st' where none: "result_container st' = PyNone"
    and cont: "\<And>es. block_process_until_result result_container (input_update False) (pre @ es) ?init
               = block_process_until_result result_container (input_update False) es st'"
    by auto
  from c have e2: "input_update False c st' = Inr (do_cancel st')" by auto
  have "block_process_until_result result_container (input_update False) (c # rest) st'
          = Some (do_cancel st')"
    using none e2 by (simp add: block_done do_cancel_def)
  with cont [of "c # rest"] ok tr show ?thesis
    by (simp add: confirm_def base_input_dialog_def final_outcome_def do_cancel_def)
qed

lemma do_confirm_value:
  "result_container (do_confirm is_input st) \<noteq> CANCEL_SIGNAL"
  "result_container (do_confirm is_input st) \<noteq> PyNone"
  "final_outcome is_input (result_container (do_confirm is_input st))
     = Inr (result_container (do_confirm is_input st))"
  by (auto simp: do_confirm_def final_outcome_def Let_def split: option.splits)

text \<open>
  Claim C5, as the code has it. The final value of the slot is compared with the
  sentinel: the sentinel gives the cancellation outcome (the error for a prompt,
  \<^verbatim>\<open>False\<close> for a confirm dialog); a value stored by the confirm callback is never the
  sentinel and is returned as the confirmed outcome (any string for a prompt, \<^verbatim>\<open>True\<close>
  for a confirm dialog); a slot that is still \<^verbatim>\<open>None\<close> gives neither, but the error
  \<^verbatim>\<open>ValueError("Input required: blank input.")\<close> for a prompt and \<^verbatim>\<open>False\<close> for a
  confirm dialog. In an open prompt, confirming an entry that holds the empty string
  returns the empty string, and confirming an entry that holds \<open>s\<close> returns \<open>s\<close>
  trimmed; in an open confirm dialog, accepting returns \<^verbatim>\<open>True\<close> and cancelling returns
  \<^verbatim>\<open>False\<close>.
\<close>

theorem final_outcome_classification:
  "final_outcome True CANCEL_SIGNAL = Inl (ValueError ''Input required: Dialog was canceled.'') \<and>
   final_outcome False CANCEL_SIGNAL = Inr (PyBool False) \<and>
   result_container (do_confirm is_input st) \<noteq> CANCEL_SIGNAL \<and>
   final_outcome is_input (result_container (do_confirm is_input st))
     = Inr (result_container (do_confirm is_input st)) \<and>
   final_outcome True (PyStr s) = Inr (PyStr s) \<and>
   final_outcome False (PyBool True) = Inr (PyBool True) \<and>
   final_outcome True PyNone = Inl (ValueError ''Input required: blank input.'') \<and>
   final_outcome False PyNone = Inr (PyBool False) \<and>
   (prompt message d pre = None \<and> c \<in> {ConfirmButton, KeyReturn} \<longrightarrow>
      prompt message d (pre @ TypeText [] # c # rest) = Some (1, Inr (PyStr [])) \<and>
      prompt message d (pre @ TypeText s # c # rest) = Some (1, Inr (PyStr (py_strip s)))) \<and>
   (confirm message pre = None \<and> c \<in> {ConfirmButton, KeyReturn} \<longrightarrow>
      confirm message (pre @ c # rest) = Some (1, Inr (PyBool True))) \<and>
   (confirm message pre = None \<and> c \<in> {CancelButton, KeyEscape, WindowClose} \<longrightarrow>
      confirm message (pre @ c # rest) = Some (1, Inr (PyBool False)))"
proof -
  have "py_strip [] = []" by (simp add: py_strip_def)
  then show ?thesis
    using prompt_confirm_after_edit [of message d pre c "[]" rest]
      prompt_confirm_after_edit [of message d pre c s rest]
      confirm_accept [of message pre c rest] confirm_cancel [of message pre c rest]
      do_confirm_value [of is_input st]
    by (simp add: final_outcome_def)
qed

theorem final_outcome_classification_witness:
  "prompt (Some ''Name?'') ''Al'' [KeyDown] = None \<and>
   prompt (Some ''Name?'') ''Al'' ([KeyDown] @ TypeText [] # KeyReturn # []) =
     Some (1, Inr (PyStr [])) \<and>
   prompt (Some ''Name?'') ''Al'' ([KeyDown] @ TypeText '' Bob '' # KeyReturn # []) =
     Some (1, Inr (PyStr ''Bob'')) \<and>
   confirm (Some ''Name?'') [KeyDown] = None \<and>
   confirm (Some ''Name?'') ([KeyDown] @ KeyReturn # []) = Some (1, Inr (PyBool True)) \<and>
   confirm (Some ''Name?'') ([KeyDown] @ KeyEscape # []) = Some (1, Inr (PyBool False))"
proof -
  have p: "prompt (Some ''Name?'') ''Al'' [KeyDown] = None"
    by (simp add: dialog_eval)
  have q: "confirm (Some ''Name?'') [KeyDown] = None"
    by (simp add: dialog_eval)
  from p q
    final_outcome_classification [where message = "Some ''Name?''" and d = "''Al''"
      and pre = "[KeyDown]" and c = KeyReturn and s = "'' Bob ''" and rest = "[]"]
    final_outcome_classification [where message = "Some ''Name?''" and d = "''Al''"
      and pre = "[KeyDown]" and c = KeyEscape and s = "'' Bob ''" and rest = "[]"]
  show ?thesis by (simp add: strip_samples)
qed

text \<open>
  Claim C5 as stated fails for a value that is not the sentinel: when the update raises,
  the wait ends with the slot still \<^verbatim>\<open>None\<close>, and the outcome is not the confirmed one:
  the prompt raises and the confirm dialog returns \<^verbatim>\<open>False\<close>.
\<close>

theorem unset_slot_not_confirmed:
  "PyNone \<noteq> CANCEL_SIGNAL \<and>
   final_outcome True PyNone = Inl (ValueError ''Input required: blank input.'') \<and>
   final_outcome False PyNone = Inr (PyBool False) \<and>
   prompt (Some ''Name?'') ''Al'' [ToolkitError]
     = Some (1, Inl (ValueError ''Input required: blank input.'')) \<and>
   confirm (Some ''Sure?'') [ToolkitError] = Some (1, Inr (PyBool False))"
  by (simp add: dialog_eval)


section \<open>The set of selected indices\<close>

lemma callback_single:
  assumes "selection_callback ord sels False optional e st = Inr st'"
    and "card (selected_indices st) \<le> 1"
  shows "card (selected_indices st') \<le> 1"
  using assms
  by (cases e)
     (auto simp: handle_toggle_selection_def handle_move_up_def handle_move_down_def
        perform_confirmation_def perform_cancellation_def Let_def
        split: sum.splits if_splits)

lemma run_callbacks_single:
  "card (selected_indices st) \<le> 1 \<Longrightarrow>
   card (selected_indices (run_callbacks ord sels False optional evs st)) \<le> 1"
proof (induction evs arbitrary: st)
  case Nil
  then show ?case by simp
next
  case (Cons e evs)
  then show ?case
    by (cases "selection_callback ord sels False optional e st")
       (auto dest: callback_single)
qed

lemma update_single:
  assumes "selection_update ord r sels False optional e st = Inr st'"
    and "card (selected_indices st) \<le> 1"
  shows "card (selected_indices st') \<le> 1"
  using assms
  by (auto simp: selection_update_def split: if_splits sum.splits dest: callback_single)

lemma toggle_clicks:
  assumes "distinct xs" and "set xs \<subseteq> {0..<int (length sels)}"
    and "set xs \<inter> selected_indices st = {}"
  shows "selected_indices (run_callbacks ord sels True optional (map Click xs) st)
           = selected_indices st \<union> set xs"
  using assms
proof (induction xs arbitrary: st)
  case Nil
  then show ?case by simp
next
  case (Cons x xs)
  let ?st = "handle_toggle_selection True x st"
  from Cons.prems have x: "0 \<le> x \<and> x < int (length sels)" and nx: "x \<notin> selected_indices st"
    by auto
  then have sel: "selected_indices ?st = insert x (selected_indices st)"
    by (simp add: handle_toggle_selection_def)
  have "selected_indices (run_callbacks ord sels True optional (map Click xs) ?st)
          = selected_indices ?st \<union> set xs"
    using Cons.prems by (intro Cons.IH) (auto simp: sel)
  with x sel show ?case by auto
qed

text \<open>
  Claim C7. In single-select mode the set of selected indices has at most one member
  after the callbacks of any list of actions, run from the initial state, and in the
  state in which the wait ends; toggling \<open>a\<close> and then \<open>b\<close> leaves exactly \<open>b\<close>
  selected. In multi-select mode a toggle removes the index if it is selected and adds
  it if not, leaving the other members alone, and the size is not bounded: clicking the
  items of any list of distinct indices of the candidate list selects them all.
\<close>

theorem selected_set_single_and_multi:
  "card (selected_indices
          (run_callbacks ord sels False optional evs initial_selection_state)) \<le> 1 \<and>
   (block_process_until_result selection_result
        (selection_update ord r sels False optional) evs initial_selection_state = Some st'
      \<longrightarrow> card (selected_indices st') \<le> 1) \<and>
   selected_indices (handle_toggle_selection False b (handle_toggle_selection False a st)) = {b} \<and>
   selected_indices (handle_toggle_selection True i st) =
     (if i \<in> selected_indices st then selected_indices st - {i}
      else insert i (selected_indices st)) \<and>
   (distinct xs \<and> set xs \<subseteq> {0..<int (length sels)} \<longrightarrow>
      selected_indices
        (run_callbacks ord sels True optional (map Click xs) initial_selection_state) = set xs \<and>
      card (selected_indices
        (run_callbacks ord sels True optional (map Click xs) initial_selection_state)) = length xs)"
proof (intro conjI impI)
  show "card (selected_indices
             (run_callbacks ord sels False optional evs initial_selection_state)) \<le> 1"
    using run_callbacks_single [of initial_selection_state ord sels optional evs]
    by (simp add: initial_selection_state_def)
next
  assume blk: "block_process_until_result selection_result
        (selection_update ord r sels False optional) evs initial_selection_state = Some st'"
  show "card (selected_indices st') \<le> 1"
    by (rule block_invariant [OF blk, where P = "\<lambda>s. card (selected_indices s) \<le> 1"])
       (auto simp: initial_selection_state_def dest: update_single)
next
  show "selected_indices (handle_toggle_selection False b (handle_toggle_selection False a st)) = {b}"
    by (simp add: handle_toggle_selection_def)
next
  show "selected_indices (handle_toggle_selection True i st) =
     (if i \<in> selected_indices st then selected_indices st - {i}
      else insert i (selected_indices st))"
    by (simp add: handle_toggle_selection_def)
next
  assume a: "distinct xs \<and> set xs \<subseteq> {0..<int (length sels)}"
  then show s: "selected_indices
        (run_callbacks ord sels True optional (map Click xs) initial_selection_state) = set xs"
    using toggle_clicks [of xs sels initial_selection_state ord optional]
    by (simp add: initial_selection_state_def)
  from a show "card (selected_indices
        (run_callbacks ord sels True optional (map Click xs) initial_selection_state)) = length xs"
    by (simp add: s distinct_card)
qed

theorem selected_set_single_and_multi_witness:
  "block_process_until_result selection_result
     (selection_update index_order False [''a'', ''b'', ''c''] False False)
     [Click 0, KeyDown, KeySpace, Click 2, KeyReturn] initial_selection_state
     = Some \<lparr>selection_result = PyList [''c''], selected_indices = {2}, active_focus_index = 2\<rparr> \<and>
   card (selected_indices
     \<lparr>selection_result = PyList [''c''], selected_indices = {2}, active_focus_index = 2\<rparr>) \<le> 1 \<and>
   distinct [2, 0 :: int] \<and> set [2, 0] \<subseteq> {0..<int (length [''a'', ''b'', ''c''])} \<and>
   card (selected_indices
     (run_callbacks index_order [''a'', ''b'', ''c''] True False (map Click [2, 0])
        initial_selection_state)) = length [2, 0 :: int]"
proof -
  have w: "block_process_until_result selection_result
     (selection_update index_order False [''a'', ''b'', ''c''] False False)
     [Click 0, KeyDown, KeySpace, Click 2, KeyReturn] initial_selection_state
     = Some \<lparr>selection_result = PyList [''c''], selected_indices = {2}, active_focus_index = 2\<rparr>"
    by (simp add: dialog_eval)
  have d: "distinct [2, 0 :: int] \<and> set [2, 0] \<subseteq> {0..<int (length [''a'', ''b'', ''c''])}"
    by simp
  from w d
    selected_set_single_and_multi [where ord = index_order and r = False
      and sels = "[''a'', ''b'', ''c'']" and optional = False
      and evs = "[Click 0, KeyDown, KeySpace, Click 2, KeyReturn]"
      and st' = "\<lparr>selection_result = PyList [''c''], selected_indices = {2},
                  active_focus_index = 2\<rparr>"
      and xs = "[2, 0]"]
  show ?thesis by blast
qed

section \<open>The list that a selection returns\<close>

lemma getitems_in_range:
  assumes "\<And>i. i \<in> set order \<Longrightarrow> 0 \<le> i \<and> i < int (length sels)"
  shows "getitems sels order = Inr (map (\<lambda>i. sels ! nat i) order)"
  using assms by (induction order) (auto simp: py_getitem_def)

lemma callback_in_range:
  assumes "selection_callback ord sels multiple optional e st = Inr st'"
    and "selected_indices st \<subseteq> {0..<int (length sels)}"
    and "0 \<le> active_focus_index st \<and> active_focus_index st < int (length sels)"
  shows "selected_indices st' \<subseteq> {0..<int (length sels)} \<and>
         0 \<le> active_focus_index st' \<and> active_focus_index st' < int (length sels)"
  using assms
  by (cases e)
     (auto simp: handle_toggle_selection_def handle_move_up_def handle_move_down_def
        perform_confirmation_def perform_cancellation_def py_mod_def Let_def
        split: sum.splits if_splits)

lemma update_in_range:
  assumes "selection_update ord r sels multiple optional e st = Inr st'"
    and "selected_indices st \<subseteq> {0..<int (length sels)} \<and>
         0 \<le> active_focus_index st \<and> active_focus_index st < int (length sels)"
  shows "selected_indices st' \<subseteq> {0..<int (length sels)} \<and>
         0 \<le> active_focus_index st' \<and> active_focus_index st' < int (length sels)"
  using assms callback_in_range [of ord sels multiple optional e st st']
  by (auto simp: selection_update_def split: if_splits sum.splits)

text \<open>
  While the wait goes on no update has raised and the slot is empty, so the state is the
  one that the callbacks of the actions so far have built.
\<close>

lemma open_wait_state:
  assumes "block_process_until_result selection_result
             (selection_update ord r sels multiple optional) pre st = None"
  shows "selection_result (run_callbacks ord sels multiple optional pre st) = PyNone \<and>
         (\<forall>es. block_process_until_result selection_result
                 (selection_update ord r sels multiple optional) (pre @ es) st =
               block_process_until_result selection_result
                 (selection_update ord r sels multiple optional) es
                 (run_callbacks ord sels multiple optional pre st))"
  using assms
proof (induction pre arbitrary: st)
  case Nil
  then show ?case by (simp split: if_splits)
next
  case (Cons e pre)
  from Cons.prems have none: "selection_result st = PyNone"
    by (simp split: if_splits)
  with Cons.prems obtain s' where
    step: "selection_update ord r sels multiple optional e st = Inr s'" and
    rest: "block_process_until_result selection_result
             (selection_update ord r sels multiple optional) pre s' = None"
    by (auto split: sum.splits)
  from step have run: "run_callbacks ord sels multiple optional (e # pre) st =
                       run_callbacks ord sels multiple optional pre s'"
    by (auto simp: selection_update_def split: if_splits sum.splits)
  show ?case
    unfolding run using Cons.IH [OF rest] none step by simp
qed

lemma run_callbacks_in_range:
  assumes "selected_indices st \<subseteq> {0..<int (length sels)}"
    and "0 \<le> active_focus_index st \<and> active_focus_index st < int (length sels)"
  shows "selected_indices (run_callbacks ord sels multiple optional evs st)
           \<subseteq> {0..<int (length sels)}"
  using assms
proof (induction evs arbitrary: st)
  case Nil
  then show ?case by simp
next
  case (Cons e evs)
  show ?case
  proof (cases "selection_callback ord sels multiple optional e st")
    case (Inl err)
    with Cons show ?thesis by simp
  next
    case (Inr s')
    from callback_in_range [OF Inr Cons.prems]
    have "selected_indices (run_callbacks ord sels multiple optional evs s')
            \<subseteq> {0..<int (length sels)}"
      by (intro Cons.IH) simp_all
    with Inr show ?thesis by simp
  qed
qed

text \<open>
  Claim C8, as the code has it. Take a selection dialog on a candidate list that is not
  empty, still open after the actions \<open>pre\<close>, whose callbacks have selected the set
  \<open>chosen\<close>. When the user then confirms (with the button or with Return) and the
  dialog is optional or something is selected, the call ends and returns the candidates
  at the selected indices, one for each selected index, in the order in which the set is
  iterated (an order that lists the members of the set, each once); the selected indices
  are indices of the candidate list.
\<close>

theorem selection_returns_selected_items:
  assumes waiting: "selection ord r message (Some sels) multiple optional pre = None"
    and chosen: "chosen = selected_indices
                   (run_callbacks ord sels multiple optional pre initial_selection_state)"
    and c: "c \<in> {ConfirmButton, KeyReturn}"
    and allowed: "optional \<or> chosen \<noteq> {}"
    and nonempty: "sels \<noteq> []"
    and members: "set (ord chosen) = chosen"
    and once: "distinct (ord chosen)"
  shows "selection ord r message (Some sels) multiple optional (pre @ c # rest) =
           Some (1, Inr (PyList (map (\<lambda>i. sels ! nat i) (ord chosen)))) \<and>
         chosen \<subseteq> {0..<int (length sels)} \<and>
         length (map (\<lambda>i. sels ! nat i) (ord chosen)) = card chosen"
proof -
  let ?upd = "selection_update ord r sels multiple optional"
  let ?st = "run_callbacks ord sels multiple optional pre initial_selection_state"
  let ?items = "map (\<lambda>i. sels ! nat i) (ord chosen)"
  from waiting obtain shown where
    tr: "truncate_message message MESSAGE_MAX_LENGTH = Inr shown" and
    blk: "block_process_until_result selection_result ?upd pre initial_selection_state = None"
    by (auto simp: selection_def split: sum.splits option.splits if_splits)
  from open_wait_state [OF blk] have none: "selection_result ?st = PyNone" and
    cont: "\<And>es. block_process_until_result selection_result ?upd (pre @ es)
                 initial_selection_state =
               block_process_until_result selection_result ?upd es ?st"
    by auto
  from nonempty have range: "chosen \<subseteq> {0..<int (length sels)}"
    unfolding chosen
    by (intro run_callbacks_in_range) (simp_all add: initial_selection_state_def)
  with members have "\<And>i. i \<in> set (ord chosen) \<Longrightarrow> 0 \<le> i \<and> i < int (length sels)"
    by auto
  then have items: "getitems sels (ord chosen) = Inr ?items"
    by (rule getitems_in_range)
  with allowed chosen
  have conf: "perform_confirmation ord sels optional ?st
                = Inr (?st\<lparr>selection_result := PyList ?items\<rparr>)"
    by (auto simp: perform_confirmation_def selected_items_def)
  with c have upd: "?upd c ?st = Inr (?st\<lparr>selection_result := PyList ?items\<rparr>)"
    by (auto simp: selection_update_def)
  have "block_process_until_result selection_result ?upd (c # rest) ?st
          = Some (?st\<lparr>selection_result := PyList ?items\<rparr>)"
    using none upd by (simp add: block_done)
  with cont [of "c # rest"] tr items chosen
  have "selection ord r message (Some sels) multiple optional (pre @ c # rest) =
          Some (1, Inr (PyList ?items))"
    by (simp add: selection_def selected_items_def)
  moreover from members once have "length ?items = card chosen"
    using distinct_card [of "ord chosen"] by simp
  ultimately show ?thesis using range by simp
qed

theorem selection_returns_selected_items_witness:
  "selection index_order False (Some ''Pick'') (Some [''a'', ''b'', ''c'']) True False
     [Click 2, Click 0] = None \<and>
   selected_indices (run_callbacks index_order [''a'', ''b'', ''c''] True False [Click 2, Click 0]
     initial_selection_state) = {0, 2} \<and>
   index_order {0, 2} = [0, 2] \<and>
   selection index_order False (Some ''Pick'') (Some [''a'', ''b'', ''c'']) True False
     ([Click 2, Click 0] @ KeyReturn # [KeyEscape]) = Some (1, Inr (PyList [''a'', ''c'']))"
proof -
  have w: "selection index_order False (Some ''Pick'') (Some [''a'', ''b'', ''c'']) True False
     [Click 2, Click 0] = None"
    by (simp add: dialog_eval)
  have ch: "{0, 2} = selected_indices (run_callbacks index_order [''a'', ''b'', ''c''] True False
     [Click 2, Click 0] initial_selection_state)"
    by (simp add: dialog_eval)
  have c: "KeyReturn \<in> {ConfirmButton, KeyReturn}" by simp
  have a: "False \<or> {0, 2 :: int} \<noteq> {}" by simp
  have n: "[''a'', ''b'', ''c''] \<noteq> []" by simp
  have o: "index_order {0, 2} = [0, 2]" by (simp add: index_order_def)
  have s: "set (index_order {0, 2}) = {0, 2}" by (simp add: o)
  have d: "distinct (index_order {0, 2})" by (simp add: o)
  from selection_returns_selected_items [OF w ch c a n s d, of "[KeyEscape]"] w ch [symmetric] o
  show ?thesis by simp
qed

text \<open>
  Claim C8 as stated fails for the order. With nine candidates and the items 1 and 8
  selected, CPython iterates the set as 8, 1 (\<open>table_order\<close>, which lists the members
  of the set, each once), and the call returns the ninth candidate before the second.
\<close>

theorem selection_order_not_preserved:
  "table_order {1, 8} = [8, 1] \<and>
   selection table_order False (Some ''Pick'')
     (Some [''a'', ''b'', ''c'', ''d'', ''e'', ''f'', ''g'', ''h'', ''i'']) True False
     [Click 1, Click 8, ConfirmButton] = Some (1, Inr (PyList [''i'', ''b'']))"
  by (simp add: dialog_eval table_order_def)

section \<open>Further properties of the selection dialog\<close>

text \<open>
  On a candidate list that is not empty the focus moves cannot fail, and they step
  through the indices in a circle.
\<close>

lemma focus_moves_on_nonempty_list:
  assumes "sels \<noteq> []"
  shows "handle_move_up sels st =
           Inr (st\<lparr>active_focus_index := (active_focus_index st - 1) mod int (length sels)\<rparr>)"
    and "handle_move_down sels st =
           Inr (st\<lparr>active_focus_index := (active_focus_index st + 1) mod int (length sels)\<rparr>)"
    and "0 \<le> (active_focus_index st - 1) mod int (length sels)"
    and "(active_focus_index st - 1) mod int (length sels) < int (length sels)"
    and "0 \<le> (active_focus_index st + 1) mod int (length sels)"
    and "(active_focus_index st + 1) mod int (length sels) < int (length sels)"
  using assms by (simp_all add: handle_move_up_def handle_move_down_def py_mod_def)

text \<open>
  An optional selection dialog that is confirmed with nothing selected returns the empty
  list, when the iteration of the empty set yields nothing.
\<close>

lemma optional_empty_confirmation:
  assumes "message \<noteq> None" and "c \<in> {ConfirmButton, KeyReturn}" and "ord {} = []"
  shows "selection ord r message (Some sels) multiple True (c # rest) = Some (1, Inr (PyList []))"
  using assms
  by (auto simp: selection_def truncate_message_def selection_update_def
      initial_selection_state_def perform_confirmation_def selected_items_def block_done)

text \<open>The only exception that the list comprehension can raise is \<^verbatim>\<open>IndexError\<close>.\<close>

lemma getitems_error:
  "getitems sels order = Inl err \<Longrightarrow> err = IndexError"
  by (induction order arbitrary: err)
     (auto simp: py_getitem_def split: sum.splits if_splits)

text \<open>
  No call of the selection dialog ends with \<^verbatim>\<open>ValueError("Selection required.")\<close>,
  whatever the toolkit does with the exception of a callback.
\<close>

lemma selection_never_raises_selection_required:
  "selection ord r message sels multiple optional events
     \<noteq> Some (w, Inl (ValueError ''Selection required.''))"
proof (cases sels)
  case None
  then show ?thesis by (simp add: selection_def)
next
  case (Some cands)
  show ?thesis
  proof (cases message)
    case None
    with Some show ?thesis by (simp add: selection_def truncate_message_def)
  next
    case (Some m)
    have "list_result (selected_items ord cands chosen) \<noteq> Inl (ValueError ''Selection required.'')"
      for chosen
      by (cases "getitems cands (ord chosen)")
         (auto simp: selected_items_def dest: getitems_error)
    with Some \<open>sels = Some cands\<close> show ?thesis
      by (auto simp: selection_def truncate_message_def split: option.splits)
  qed
qed

end
